theory Spec2Isabelle
  imports Main "HOL-Library.Sublist"
begin

section \<open>Data model (types.ts)\<close>

text \<open>
  A JavaScript \<open>Date\<close>. The repository reads a date in three ways: it stores it
  (JSON serialises the time value), and \<open>generatePdfPath\<close> asks for
  \<open>getFullYear()\<close> and \<open>getMonth()\<close>, which the runtime computes from the time
  value in the time zone of the process. The record holds the time value together
  with what these two accessors return.
\<close>

record Date =
  getTime :: int
  getFullYear :: int
  getMonth :: nat

text \<open>
  The items of the operators' JSON answers, as the scrapers declare them. The file
  kmb.ts holds two listings of the KMB scraper, which read different fields of a
  notice; the items of the second listing carry the suffix \<open>_v2\<close>.
\<close>

record CTBRoute =
  route :: string
  direction :: string

record CTBNotice =
  filename :: string
  createdate :: string

record KMBRoute =
  route :: string
  bound :: int
  service_type :: int

record KMBNotice =
  kpi_referenceno :: string
  kpi_noticeimageurl :: string
  krbpiid_routeno :: string
  krbpiid_boundno :: string

record KMBNotice_v2 =
  announce_seq :: string
  url :: string

text \<open>\<open>interface Route { route: string; bound?: number }\<close>\<close>

record Route =
  route :: string
  bound :: "int option"

text \<open>
  \<open>interface Notice\<close>. The field \<open>id\<close> is written \<open>id'\<close> (\<open>id\<close> is the
  identity function of HOL) and the optional \<open>lastSeenAt\<close> is an option.
\<close>

record Notice =
  id' :: string
  pdfUrl :: string
  route :: string
  discoveredAt :: Date
  isActive :: bool
  lastSeenAt :: "Date option"

text \<open>\<open>interface CompanyMetadata { name: string; code: 'KMB' | 'CTB' | 'NWFB' }\<close>\<close>

datatype CompanyCode = KMB | CTB | NWFB

record CompanyMetadata =
  name :: string
  code :: CompanyCode

fun code_string :: "CompanyCode \<Rightarrow> string" where
  "code_string KMB = ''KMB''"
| "code_string CTB = ''CTB''"
| "code_string NWFB = ''NWFB''"

section \<open>JavaScript objects used as dictionaries\<close>

text \<open>
  \<open>interface Metadata\<close> of storage.ts is a dictionary of dictionaries of dictionaries:
  company code, then route, then notice id. A dictionary is modelled by the list of
  its own properties in the order in which \<open>for ... in\<close> and \<open>JSON.stringify\<close>
  enumerate them. A dictionary holds own properties only; what a read yields for a
  key that names a member inherited from \<open>Object.prototype\<close> is modelled apart, with
  the guard of \<open>markInactive\<close> and \<open>updateLastSeen\<close>.

  JavaScript enumerates the keys that are array indices (the canonical decimal
  numerals below \<open>2^32 - 1\<close>) first, in ascending numeric order, and then the other
  keys in the order of their creation. Route numbers such as \<open>1\<close> or \<open>101\<close> are
  array indices, so assignment of a new property is modelled with that order.
\<close>

type_synonym 'v obj = "(string \<times> 'v) list"

definition is_digit :: "char \<Rightarrow> bool" where
  "is_digit c = (c \<in> set ''0123456789'')"

definition digit_value :: "char \<Rightarrow> int" where
  "digit_value c = of_char c - of_char CHR ''0''"

definition decimal_value :: "string \<Rightarrow> int" where
  "decimal_value s = foldl (\<lambda>acc c. 10 * acc + digit_value c) 0 s"

definition array_index :: "string \<Rightarrow> int option" where
  "array_index s =
     (if s \<noteq> [] \<and> list_all is_digit s \<and> (s = ''0'' \<or> hd s \<noteq> CHR ''0'')
         \<and> decimal_value s < 4294967295
      then Some (decimal_value s) else None)"

text \<open>\<open>obj[k]\<close>: the value of the property, \<open>None\<close> for \<open>undefined\<close>.\<close>

definition obj_get :: "'v obj \<Rightarrow> string \<Rightarrow> 'v option" where
  "obj_get obj k = map_of obj k"

text \<open>Where a new property is placed in the enumeration order.\<close>

fun obj_insert :: "string \<Rightarrow> 'v \<Rightarrow> 'v obj \<Rightarrow> 'v obj" where
  "obj_insert k v [] = [(k, v)]"
| "obj_insert k v ((k', v') # ps) =
     (case array_index k of
        None \<Rightarrow> (k', v') # obj_insert k v ps
      | Some i \<Rightarrow>
          (case array_index k' of
             None \<Rightarrow> (k, v) # (k', v') # ps
           | Some j \<Rightarrow> if j < i then (k', v') # obj_insert k v ps
                       else (k, v) # (k', v') # ps))"

fun obj_replace :: "string \<Rightarrow> 'v \<Rightarrow> 'v obj \<Rightarrow> 'v obj" where
  "obj_replace k v [] = []"
| "obj_replace k v ((k', v') # ps) =
     (if k' = k then (k, v) # ps else (k', v') # obj_replace k v ps)"

text \<open>\<open>obj[k] = v\<close>: an existing property keeps its place.\<close>

definition obj_set :: "string \<Rightarrow> 'v \<Rightarrow> 'v obj \<Rightarrow> 'v obj" where
  "obj_set k v obj =
     (case obj_get obj k of
        None \<Rightarrow> obj_insert k v obj
      | Some _ \<Rightarrow> obj_replace k v obj)"

type_synonym Metadata = "Notice obj obj obj"

text \<open>
  The record that is stored under company code, route and notice id, if there is one:
  \<open>metadata[c]?.[r]?.[i]\<close> as far as own properties go.
\<close>

definition lookup_notice :: "Metadata \<Rightarrow> string \<Rightarrow> string \<Rightarrow> string \<Rightarrow> Notice option" where
  "lookup_notice metadata c r i =
     (case obj_get metadata c of
        None \<Rightarrow> None
      | Some companyData \<Rightarrow>
          (case obj_get companyData r of
             None \<Rightarrow> None
           | Some routeData \<Rightarrow> obj_get routeData i))"

text \<open>
  \<open>metadata[c][r][i] = n\<close>, and equally a field assignment
  \<open>metadata[c][r][i].f = x\<close> with \<open>n\<close> the updated notice. The source only executes
  these where \<open>metadata[c][r]\<close> exists; elsewhere JavaScript raises a TypeError and
  the model leaves the dictionary as it is.
\<close>

definition assign_notice :: "Metadata \<Rightarrow> string \<Rightarrow> string \<Rightarrow> string \<Rightarrow> Notice \<Rightarrow> Metadata" where
  "assign_notice metadata c r i n =
     (case obj_get metadata c of
        None \<Rightarrow> metadata
      | Some companyData \<Rightarrow>
          (case obj_get companyData r of
             None \<Rightarrow> metadata
           | Some routeData \<Rightarrow>
               obj_set c (obj_set r (obj_set i n routeData) companyData) metadata))"

section \<open>Strings and paths of the runtime\<close>

text \<open>\<open>String(n)\<close> for an integer \<open>n\<close>: its decimal numeral.\<close>

definition digit_char :: "nat \<Rightarrow> char" where
  "digit_char n = ''0123456789'' ! n"

fun decimal :: "nat \<Rightarrow> string" where
  "decimal n = (if n < 10 then [digit_char n] else decimal (n div 10) @ [digit_char (n mod 10)])"

declare decimal.simps [simp del]

definition String_int :: "int \<Rightarrow> string" where
  "String_int i = (if i < 0 then CHR ''-'' # decimal (nat (- i)) else decimal (nat i))"

text \<open>\<open>s.padStart(2, '0')\<close>\<close>

definition padStart2 :: "string \<Rightarrow> string" where
  "padStart2 s = replicate (2 - length s) CHR ''0'' @ s"

text \<open>\<open>s.includes(p)\<close>: \<open>p\<close> occurs somewhere in \<open>s\<close>.\<close>

fun String_includes :: "string \<Rightarrow> string \<Rightarrow> bool" where
  "String_includes [] p = (p = [])"
| "String_includes (c # cs) p = (prefix p (c # cs) \<or> String_includes cs p)"

text \<open>\<open>s.split(sep)\<close> for a separator of one character.\<close>

fun String_split :: "char \<Rightarrow> string \<Rightarrow> string list" where
  "String_split sep [] = [[]]"
| "String_split sep (c # cs) =
     (if c = sep then [] # String_split sep cs
      else (case String_split sep cs of
              w # ws \<Rightarrow> (c # w) # ws
            | [] \<Rightarrow> [[c]]))"

text \<open>
  \<open>path.join\<close> of Node.js on a POSIX system: the non-empty arguments are joined by
  \<open>/\<close> and the result is normalised (empty and \<open>.\<close> segments dropped, \<open>..\<close>
  resolved against the segment before it, a trailing slash kept).
\<close>

fun normalize_segments :: "bool \<Rightarrow> string list \<Rightarrow> string list \<Rightarrow> string list" where
  "normalize_segments allowAboveRoot [] res = rev res"
| "normalize_segments allowAboveRoot (s # ss) res =
     (if s = [] \<or> s = ''.'' then normalize_segments allowAboveRoot ss res
      else if s = ''..'' then
        (case res of
           [] \<Rightarrow> normalize_segments allowAboveRoot ss (if allowAboveRoot then [''..''] else [])
         | t # ts \<Rightarrow>
             if t = ''..'' then normalize_segments allowAboveRoot ss (''..'' # t # ts)
             else normalize_segments allowAboveRoot ss ts)
      else normalize_segments allowAboveRoot ss (s # res))"

fun join_with :: "string \<Rightarrow> string list \<Rightarrow> string" where
  "join_with sep [] = []"
| "join_with sep [s] = s"
| "join_with sep (s # t # ss) = s @ sep @ join_with sep (t # ss)"

definition path_normalize :: "string \<Rightarrow> string" where
  "path_normalize p =
     (if p = [] then ''.''
      else
        (let isAbsolute = (hd p = CHR ''/'');
             trailingSeparator = (last p = CHR ''/'');
             q = join_with ''/'' (normalize_segments (\<not> isAbsolute) (String_split CHR ''/'' p) [])
         in if q = [] then (if isAbsolute then ''/'' else if trailingSeparator then ''./'' else ''.'')
            else (if isAbsolute then ''/'' else []) @ q @ (if trailingSeparator then ''/'' else [])))"

definition path_join :: "string list \<Rightarrow> string" where
  "path_join args =
     (let joined = join_with ''/'' (filter (\<lambda>a. a \<noteq> []) args)
      in if joined = [] then ''.'' else path_normalize joined)"

section \<open>The disk and the network (storage.ts)\<close>

text \<open>
  The state that storage.ts reads and writes: whether the directory \<open>DATA_DIR\<close>
  exists, the content of \<open>METADATA_FILE\<close>, the number of times \<open>saveMetadata\<close> has
  written that file, the paths of the documents written by \<open>downloadPdf\<close>, and the
  number of documents that \<open>downloadPdf\<close> has fetched and written (a document fetched
  again for a path that is already there is counted again).
  A file that is there but cannot be read, or whose text \<open>JSON.parse\<close> rejects, is
  \<open>Unparseable\<close>. \<open>mkdirSync\<close> with \<open>recursive\<close> and \<open>fs.writeFile\<close> are taken to
  succeed.
\<close>

datatype file_content = Missing | Unparseable | Json Metadata

record disk =
  data_dir :: bool
  metadata_file :: file_content
  metadata_writes :: nat
  pdf_files :: "string set"
  pdf_downloads :: nat

datatype error =
    DownloadFailed string
  | RoutesFetchFailed
  | NoticesFetchFailed string
  | TypeError

type_synonym 'a result = "error + 'a"

text \<open>
  What the program takes from its surroundings: the working directory of the
  process, the clock read by \<open>new Date()\<close>, for each URL whether fetching the
  document there succeeds (\<open>fetch\<close> resolves and \<open>response.ok\<close> holds), and the
  answers of the operators' route and notice endpoints.
\<close>

datatype KMBRoutesJson = RoutesArray "KMBRoute list" | RoutesObject "KMBRoute list option"

datatype 'a notices_answer =
    FetchThrows
  | NotOk
  | BadJson
  | Body "'a list option"

record world =
  cwd :: string
  new_Date :: Date
  pdf_ok :: "string \<Rightarrow> bool"
  ctb_route_api :: "CTBRoute list option"
  ctb_notice_api :: "string \<Rightarrow> CTBNotice notices_answer"
  kmb_route_api :: "KMBRoutesJson option"
  kmb_notice_api :: "string \<Rightarrow> int option \<Rightarrow> KMBNotice notices_answer"
  kmb_notice_api_v2 :: "string \<Rightarrow> int option \<Rightarrow> KMBNotice_v2 notices_answer"

definition DATA_DIR :: "world \<Rightarrow> string" where
  "DATA_DIR w = path_join [cwd w, ''data'']"

definition ensureDir :: "disk \<Rightarrow> disk" where
  "ensureDir d = d\<lparr>data_dir := True\<rparr>"

definition getMetadata :: "disk \<Rightarrow> Metadata \<times> disk" where
  "getMetadata d =
     (let d1 = ensureDir d in
      (case metadata_file d1 of
         Json metadata \<Rightarrow> (metadata, d1)
       | Missing \<Rightarrow> ([], d1)
       | Unparseable \<Rightarrow> ([], d1)))"

definition saveMetadata :: "Metadata \<Rightarrow> disk \<Rightarrow> disk" where
  "saveMetadata metadata d =
     d\<lparr>metadata_file := Json metadata, metadata_writes := Suc (metadata_writes d)\<rparr>"

definition downloadPdf :: "world \<Rightarrow> string \<Rightarrow> string \<Rightarrow> disk \<Rightarrow> unit result \<times> disk" where
  "downloadPdf w pdf_url destPath d =
     (if \<not> pdf_ok w pdf_url then (Inl (DownloadFailed pdf_url), d)
      else (Inr (), (ensureDir d)\<lparr>pdf_files := insert destPath (pdf_files d),
                                   pdf_downloads := Suc (pdf_downloads d)\<rparr>))"

definition generatePdfPath ::
    "world \<Rightarrow> CompanyMetadata \<Rightarrow> string \<Rightarrow> string \<Rightarrow> Date \<Rightarrow> string" where
  "generatePdfPath w company r noticeId date =
     (let year = getFullYear date;
          month = padStart2 (String_int (int (getMonth date) + 1));
          filename = (if String_includes noticeId ''.pdf'' then noticeId else noticeId @ ''.pdf'')
      in path_join [DATA_DIR w, code_string (code company), r, String_int year, month, filename])"

definition noticeExists ::
    "world \<Rightarrow> CompanyMetadata \<Rightarrow> string \<Rightarrow> string \<Rightarrow> Date \<Rightarrow> disk \<Rightarrow> bool" where
  "noticeExists w company r noticeId date d =
     (generatePdfPath w company r noticeId date \<in> pdf_files d)"

text \<open>A JavaScript \<open>Set\<close> of strings: its elements in insertion order.\<close>

definition Set_add :: "string \<Rightarrow> string list \<Rightarrow> string list" where
  "Set_add x s = (if x \<in> set s then s else s @ [x])"

definition Set_has :: "string list \<Rightarrow> string \<Rightarrow> bool" where
  "Set_has s x = (x \<in> set s)"

text \<open>The template literal \<open>`${route}:${noticeId}`\<close>.\<close>

definition noticeKey :: "string \<Rightarrow> string \<Rightarrow> string" where
  "noticeKey r noticeId = r @ '':'' @ noticeId"

text \<open>
  The two loops of \<open>getActiveNotices\<close>; each enumerated key comes with the value
  stored under it.
\<close>

fun activeNotices_route :: "string \<Rightarrow> Notice obj \<Rightarrow> string list \<Rightarrow> string list" where
  "activeNotices_route r [] activeNotices = activeNotices"
| "activeNotices_route r ((noticeId, n) # ps) activeNotices =
     activeNotices_route r ps
       (if isActive n then Set_add (noticeKey r noticeId) activeNotices else activeNotices)"

fun activeNotices_company :: "Notice obj obj \<Rightarrow> string list \<Rightarrow> string list" where
  "activeNotices_company [] activeNotices = activeNotices"
| "activeNotices_company ((r, routeData) # rs) activeNotices =
     activeNotices_company rs (activeNotices_route r routeData activeNotices)"

definition getActiveNotices :: "CompanyMetadata \<Rightarrow> disk \<Rightarrow> string list \<times> disk" where
  "getActiveNotices company d =
     (let (metadata, d1) = getMetadata d;
          companyData = (case obj_get metadata (code_string (code company)) of
                           None \<Rightarrow> [] | Some cd \<Rightarrow> cd)
      in (activeNotices_company companyData [], d1))"

text \<open>
  The functions that read and change the records. Their reads of
  \<open>metadata[company.code]\<close>, \<open>[route]\<close> and \<open>[noticeId]\<close> are reads of own properties
  here (\<open>lookup_notice\<close>), as they are for keys under which nothing is inherited; the
  next subsection takes up the keys that name inherited members.
\<close>

definition addNotice ::
    "world \<Rightarrow> Notice \<Rightarrow> CompanyMetadata \<Rightarrow> Date \<Rightarrow> string \<Rightarrow> disk \<Rightarrow> unit result \<times> disk" where
  "addNotice w notice company date pdf_url d =
     (let (metadata, d1) = getMetadata d;
          c = code_string (code company);
          metadata1 = (if obj_get metadata c = None then obj_set c [] metadata else metadata);
          companyData = (case obj_get metadata1 c of None \<Rightarrow> [] | Some cd \<Rightarrow> cd);
          metadata2 = (if obj_get companyData (route notice) = None
                       then obj_set c (obj_set (route notice) [] companyData) metadata1
                       else metadata1)
      in (case lookup_notice metadata2 c (route notice) (id' notice) of
            None \<Rightarrow>
              (let pdfPath = generatePdfPath w company (route notice) (id' notice) date
               in (case downloadPdf w pdf_url pdfPath d1 of
                     (Inl e, d2) \<Rightarrow> (Inl e, d2)
                   | (Inr _, d2) \<Rightarrow>
                       (Inr (),
                        saveMetadata
                          (assign_notice metadata2 c (route notice) (id' notice)
                             (notice\<lparr>discoveredAt := date\<rparr>)) d2)))
          | Some existingNotice \<Rightarrow>
              (Inr (),
               saveMetadata
                 (assign_notice metadata2 c (route notice) (id' notice)
                    (existingNotice\<lparr>lastSeenAt := Some date, isActive := True\<rparr>)) d1)))"

definition markInactive :: "string \<Rightarrow> string \<Rightarrow> CompanyMetadata \<Rightarrow> disk \<Rightarrow> disk" where
  "markInactive r noticeId company d =
     (let (metadata, d1) = getMetadata d in
      (case lookup_notice metadata (code_string (code company)) r noticeId of
         Some n \<Rightarrow>
           saveMetadata
             (assign_notice metadata (code_string (code company)) r noticeId
                (n\<lparr>isActive := False\<rparr>)) d1
       | None \<Rightarrow> d1))"

definition updateLastSeen :: "string \<Rightarrow> string \<Rightarrow> Date \<Rightarrow> CompanyMetadata \<Rightarrow> disk \<Rightarrow> disk" where
  "updateLastSeen r noticeId date company d =
     (let (metadata, d1) = getMetadata d in
      (case lookup_notice metadata (code_string (code company)) r noticeId of
         Some n \<Rightarrow>
           saveMetadata
             (assign_notice metadata (code_string (code company)) r noticeId
                (n\<lparr>lastSeenAt := Some date\<rparr>)) d1
       | None \<Rightarrow> d1))"

definition noticeExistsInMetadata :: "CompanyMetadata \<Rightarrow> string \<Rightarrow> string \<Rightarrow> disk \<Rightarrow> bool \<times> disk" where
  "noticeExistsInMetadata company r noticeId d =
     (let (metadata, d1) = getMetadata d
      in (lookup_notice metadata (code_string (code company)) r noticeId \<noteq> None, d1))"

subsection \<open>Keys that name inherited members\<close>

text \<open>
  A property read \<open>obj[k]\<close> does not stop at the own properties of \<open>obj\<close>: where \<open>k\<close> is
  not among them, the read goes on along the prototype chain. An object parsed from
  JSON has the prototype \<open>Object.prototype\<close>, so a key such as \<open>toString\<close> or
  \<open>constructor\<close> yields a built-in function, and a further read yields a member of
  that function: \<open>metadata[c]['toString']['call']\<close> is the function
  \<open>Function.prototype.call\<close>, and \<open>metadata[c]['constructor']['name']\<close> is the string
  \<open>'Object'\<close>. The guard \<open>metadata[company.code]?.[route]?.[noticeId]\<close> of
  \<open>markInactive\<close>, \<open>updateLastSeen\<close> and \<open>noticeExistsInMetadata\<close> is truthy for such
  a key although no record is stored under it.

  The values that such reads yield: \<open>undefined\<close>, \<open>null\<close>, booleans, numbers (the
  numbers in reach, such as the \<open>length\<close> of a function, are integers), strings, and
  objects. A built-in object (a function is an object) is named by a string.
\<close>

datatype js_value =
    JS_undefined
  | JS_null
  | JS_boolean bool
  | JS_number int
  | JS_string string
  | JS_object string

text \<open>The value as the condition of an \<open>if\<close>, or under \<open>!!\<close>.\<close>

fun js_truthy :: "js_value \<Rightarrow> bool" where
  "js_truthy JS_undefined = False"
| "js_truthy JS_null = False"
| "js_truthy (JS_boolean b) = b"
| "js_truthy (JS_number n) = (n \<noteq> 0)"
| "js_truthy (JS_string s) = (s \<noteq> [])"
| "js_truthy (JS_object b) = True"

text \<open>
  What the built-in objects hold is a table of the runtime, not of the repository, and
  is a parameter: \<open>Object_prototype k\<close> is the outcome of \<open>obj[k]\<close> for an object \<open>obj\<close>
  parsed from JSON that has no own property \<open>k\<close>, and \<open>member_of v k\<close> is the outcome of
  \<open>v[k]\<close> for a value \<open>v\<close> reached in this way (neither \<open>undefined\<close> nor \<open>null\<close>). The
  outcome of a read is a value, or an error where a getter raises one.
\<close>

record runtime =
  Object_prototype :: "string \<Rightarrow> js_value result"
  member_of :: "js_value \<Rightarrow> string \<Rightarrow> js_value result"

text \<open>\<open>v?.[k]\<close>\<close>

fun optional_member :: "runtime \<Rightarrow> js_value \<Rightarrow> string \<Rightarrow> js_value result" where
  "optional_member rt JS_undefined k = Inr JS_undefined"
| "optional_member rt JS_null k = Inr JS_undefined"
| "optional_member rt v k = member_of rt v k"

text \<open>A read whose outcome is an error ends the evaluation of the chain.\<close>

fun then_read :: "runtime \<Rightarrow> js_value result \<Rightarrow> string \<Rightarrow> js_value result" where
  "then_read rt (Inl e) k = Inl e"
| "then_read rt (Inr v) k = optional_member rt v k"

text \<open>
  What \<open>metadata[c]?.[r]?.[i]\<close> yields where no record is stored under the key: the
  first of the three reads that finds no own property goes on to \<open>Object.prototype\<close>,
  and the reads after it are reads of the value found there.
\<close>

definition inherited_value ::
    "runtime \<Rightarrow> Metadata \<Rightarrow> string \<Rightarrow> string \<Rightarrow> string \<Rightarrow> js_value result" where
  "inherited_value rt metadata c r i =
     (case obj_get metadata c of
        None \<Rightarrow> then_read rt (then_read rt (Object_prototype rt c) r) i
      | Some companyData \<Rightarrow>
          (case obj_get companyData r of
             None \<Rightarrow> then_read rt (Object_prototype rt r) i
           | Some routeData \<Rightarrow> Object_prototype rt i))"

text \<open>
  The statement under the guard, \<open>metadata[c][r][i].isActive = false\<close> or
  \<open>metadata[c][r][i].lastSeenAt = date\<close>, where the guard has found an inherited,
  truthy value: on an object it adds a property to that object (built-in objects are
  extensible) and leaves \<open>metadata\<close> as it was read, so that \<open>saveMetadata\<close> writes the
  file again with the content it has; on a boolean, a number or a string it raises a
  TypeError, since the code of a module is strict, and \<open>saveMetadata\<close> is not reached.
  The property added to a built-in object stays in the memory of the process; it is
  not on the disk and is not followed further.
\<close>

definition under_inherited_guard :: "js_value result \<Rightarrow> Metadata \<Rightarrow> disk \<Rightarrow> unit result \<times> disk" where
  "under_inherited_guard found metadata d1 =
     (case found of
        Inl e \<Rightarrow> (Inl e, d1)
      | Inr v \<Rightarrow>
          if js_truthy v
          then (case v of
                  JS_object b \<Rightarrow> (Inr (), saveMetadata metadata d1)
                | _ \<Rightarrow> (Inl TypeError, d1))
          else (Inr (), d1))"

text \<open>
  \<open>markInactive\<close>, \<open>updateLastSeen\<close> and \<open>noticeExistsInMetadata\<close> with these reads. An
  own property comes first at every read, so the record stored under the key is found
  if there is one.
\<close>

definition markInactive_runtime ::
    "runtime \<Rightarrow> string \<Rightarrow> string \<Rightarrow> CompanyMetadata \<Rightarrow> disk \<Rightarrow> unit result \<times> disk" where
  "markInactive_runtime rt r noticeId company d =
     (let (metadata, d1) = getMetadata d in
      (case lookup_notice metadata (code_string (code company)) r noticeId of
         Some n \<Rightarrow>
           (Inr (),
            saveMetadata
              (assign_notice metadata (code_string (code company)) r noticeId
                 (n\<lparr>isActive := False\<rparr>)) d1)
       | None \<Rightarrow>
           under_inherited_guard
             (inherited_value rt metadata (code_string (code company)) r noticeId) metadata d1))"

definition updateLastSeen_runtime ::
    "runtime \<Rightarrow> string \<Rightarrow> string \<Rightarrow> Date \<Rightarrow> CompanyMetadata \<Rightarrow> disk \<Rightarrow> unit result \<times> disk" where
  "updateLastSeen_runtime rt r noticeId date company d =
     (let (metadata, d1) = getMetadata d in
      (case lookup_notice metadata (code_string (code company)) r noticeId of
         Some n \<Rightarrow>
           (Inr (),
            saveMetadata
              (assign_notice metadata (code_string (code company)) r noticeId
                 (n\<lparr>lastSeenAt := Some date\<rparr>)) d1)
       | None \<Rightarrow>
           under_inherited_guard
             (inherited_value rt metadata (code_string (code company)) r noticeId) metadata d1))"

definition noticeExistsInMetadata_runtime ::
    "runtime \<Rightarrow> CompanyMetadata \<Rightarrow> string \<Rightarrow> string \<Rightarrow> disk \<Rightarrow> bool result \<times> disk" where
  "noticeExistsInMetadata_runtime rt company r noticeId d =
     (let (metadata, d1) = getMetadata d in
      (case lookup_notice metadata (code_string (code company)) r noticeId of
         Some n \<Rightarrow> (Inr True, d1)
       | None \<Rightarrow>
           (case inherited_value rt metadata (code_string (code company)) r noticeId of
              Inl e \<Rightarrow> (Inl e, d1)
            | Inr v \<Rightarrow> (Inr (js_truthy v), d1))))"

text \<open>
  For a key that has a record, or for which the reads of the guard yield a falsy value
  (\<open>undefined\<close>, as a rule), the functions \<open>markInactive\<close>, \<open>updateLastSeen\<close> and
  \<open>noticeExistsInMetadata\<close> further above are the ones of this section (lemmas
  \<open>markInactive_runtime_own\<close>, \<open>updateLastSeen_runtime_own\<close> and
  \<open>noticeExistsInMetadata_runtime_own\<close>), and the scrapers are modelled with them.
\<close>

section \<open>The scrapers (scrapers/ctb.ts, scrapers/kmb.ts)\<close>


definition KMB_COMPANY :: CompanyMetadata where
  "KMB_COMPANY = \<lparr>name = ''KMB'', code = KMB\<rparr>"

definition KMB_PDF_API :: "string \<Rightarrow> string" where
  "KMB_PDF_API u = ''https://search.kmb.hk/KMBWebSite/AnnouncementPicture.ashx?url='' @ u"

text \<open>
  The \<open>Map\<close> named \<open>uniqueRoutes\<close>: its entries in insertion order; a key that is
  already there is not set again.
\<close>

fun uniqueRoutes :: "(string \<times> Route) list \<Rightarrow> (string \<times> Route) list \<Rightarrow> (string \<times> Route) list" where
  "uniqueRoutes [] m = m"
| "uniqueRoutes ((key, r) # rs) m =
     uniqueRoutes rs (if map_of m key = None then m @ [(key, r)] else m)"



definition KMB_route_key :: "KMBRoute \<Rightarrow> string" where
  "KMB_route_key r = KMBRoute.route r @ ''_'' @ String_int (KMBRoute.bound r)"

definition KMB_unique :: "KMBRoute list \<Rightarrow> Route list" where
  "KMB_unique routes =
     map snd
       (uniqueRoutes
          (map (\<lambda>r. (KMB_route_key r,
                      \<lparr>Route.route = KMBRoute.route r, bound = Some (KMBRoute.bound r)\<rparr>))
             routes) [])"

text \<open>kmb.ts, first listing.\<close>

definition fetchKMBRoutes :: "world \<Rightarrow> Route list result" where
  "fetchKMBRoutes w =
     (case kmb_route_api w of
        None \<Rightarrow> Inl RoutesFetchFailed
      | Some (RoutesArray routes) \<Rightarrow> Inr (KMB_unique routes)
      | Some (RoutesObject None) \<Rightarrow> Inr (KMB_unique [])
      | Some (RoutesObject (Some routes)) \<Rightarrow> Inr (KMB_unique routes))"

definition fetchKMBNotices :: "world \<Rightarrow> string \<Rightarrow> int option \<Rightarrow> Notice list result" where
  "fetchKMBNotices w r b =
     (case kmb_notice_api w r b of
        FetchThrows \<Rightarrow> Inl (NoticesFetchFailed r)
      | NotOk \<Rightarrow> Inr []
      | BadJson \<Rightarrow> Inr []
      | Body None \<Rightarrow> Inr []
      | Body (Some ns) \<Rightarrow>
          Inr (map (\<lambda>notice.
                      \<lparr>id' = kpi_referenceno notice,
                       pdfUrl = KMB_PDF_API (kpi_noticeimageurl notice),
                       route = r,
                       discoveredAt = new_Date w,
                       isActive = True,
                       lastSeenAt = None\<rparr>) ns))"



text \<open>
  The three scrapers share one body, which differs only in the company, in the
  function that fetches the notices of a route and in the routes it walks through
  (all of them, or \<open>routes.slice(0, 10)\<close>). It is modelled once.

  The body of the inner loop, for one notice of the route \<open>r\<close>: the key goes into
  \<open>seenNotices\<close>, then the notice is added or its record is updated. An error of
  \<open>addNotice\<close> leaves the loop.
\<close>

definition scrape_notice ::
    "world \<Rightarrow> CompanyMetadata \<Rightarrow> Date \<Rightarrow> string \<Rightarrow> Notice \<Rightarrow> string list \<Rightarrow> disk
       \<Rightarrow> unit result \<times> string list \<times> disk" where
  "scrape_notice w company now r notice seenNotices d =
     (let seenNotices1 = Set_add (noticeKey r (id' notice)) seenNotices;
          (exists, d1) = noticeExistsInMetadata company r (id' notice) d
      in if \<not> exists then
           (case addNotice w notice company now (pdfUrl notice) d1 of
              (res, d2) \<Rightarrow> (res, seenNotices1, d2))
         else (Inr (), seenNotices1, updateLastSeen r (id' notice) now company d1))"

fun scrape_notices ::
    "world \<Rightarrow> CompanyMetadata \<Rightarrow> Date \<Rightarrow> string \<Rightarrow> Notice list \<Rightarrow> string list \<Rightarrow> disk
       \<Rightarrow> unit result \<times> string list \<times> disk" where
  "scrape_notices w company now r [] seenNotices d = (Inr (), seenNotices, d)"
| "scrape_notices w company now r (notice # notices) seenNotices d =
     (case scrape_notice w company now r notice seenNotices d of
        (Inl e, seenNotices1, d1) \<Rightarrow> (Inl e, seenNotices1, d1)
      | (Inr u, seenNotices1, d1) \<Rightarrow> scrape_notices w company now r notices seenNotices1 d1)"

text \<open>
  The outer loop: an error in the \<open>try\<close> block of a route (fetching its notices, or
  adding one of them) is logged and the loop goes on with the next route.
\<close>

fun scrape_routes ::
    "world \<Rightarrow> CompanyMetadata \<Rightarrow> Date \<Rightarrow> (Route \<Rightarrow> Notice list result) \<Rightarrow> Route list
       \<Rightarrow> string list \<Rightarrow> disk \<Rightarrow> string list \<times> disk" where
  "scrape_routes w company now fetchNotices [] seenNotices d = (seenNotices, d)"
| "scrape_routes w company now fetchNotices (rt # rts) seenNotices d =
     (case fetchNotices rt of
        Inl e \<Rightarrow> scrape_routes w company now fetchNotices rts seenNotices d
      | Inr notices \<Rightarrow>
          (case scrape_notices w company now (Route.route rt) notices seenNotices d of
             (res, seenNotices1, d1) \<Rightarrow>
               scrape_routes w company now fetchNotices rts seenNotices1 d1))"

text \<open>
  \<open>const [route, noticeId] = activeNotice.split(':')\<close>: the first two elements;
  a missing one is \<open>undefined\<close>, which as a property key reads \<open>undefined\<close>.
\<close>

definition element_or_undefined :: "string list \<Rightarrow> nat \<Rightarrow> string" where
  "element_or_undefined xs n = (if n < length xs then xs ! n else ''undefined'')"

definition split_key :: "string \<Rightarrow> string \<times> string" where
  "split_key activeNotice =
     (let parts = String_split CHR '':'' activeNotice
      in (element_or_undefined parts 0, element_or_undefined parts 1))"

text \<open>The last loop: every key of the snapshot that was not seen is marked inactive.\<close>

fun retire_unseen :: "CompanyMetadata \<Rightarrow> string list \<Rightarrow> string list \<Rightarrow> disk \<Rightarrow> disk" where
  "retire_unseen company seenNotices [] d = d"
| "retire_unseen company seenNotices (activeNotice # rest) d =
     retire_unseen company seenNotices rest
       (if \<not> Set_has seenNotices activeNotice
        then (case split_key activeNotice of
                (r, noticeId) \<Rightarrow> markInactive r noticeId company d)
        else d)"

definition scrape_pass ::
    "world \<Rightarrow> CompanyMetadata \<Rightarrow> (Route \<Rightarrow> Notice list result) \<Rightarrow> Route list \<Rightarrow> Date
       \<Rightarrow> disk \<Rightarrow> disk" where
  "scrape_pass w company fetchNotices routes now d =
     (let (activeNotices, d1) = getActiveNotices company d;
          (seenNotices, d2) = scrape_routes w company now fetchNotices routes [] d1
      in retire_unseen company seenNotices activeNotices d2)"


text \<open>scrapers/kmb.ts, first listing (all routes)\<close>

definition scrapeKMB :: "world \<Rightarrow> Date \<Rightarrow> disk \<Rightarrow> unit result \<times> disk" where
  "scrapeKMB w now d =
     (case fetchKMBRoutes w of
        Inl e \<Rightarrow> (Inl e, d)
      | Inr routes \<Rightarrow>
          (Inr (),
           scrape_pass w KMB_COMPANY (\<lambda>rt. fetchKMBNotices w (Route.route rt) (Route.bound rt))
             routes now d))"


section \<open>Observing the stored state\<close>

text \<open>What \<open>getMetadata\<close> reads from a disk.\<close>

definition metadata_of :: "disk \<Rightarrow> Metadata" where
  "metadata_of d =
     (case metadata_file d of
        Json metadata \<Rightarrow> metadata
      | Missing \<Rightarrow> []
      | Unparseable \<Rightarrow> [])"

text \<open>The record persisted for a company code, a route and a notice id, if any.\<close>

definition stored_notice :: "disk \<Rightarrow> string \<Rightarrow> string \<Rightarrow> string \<Rightarrow> Notice option" where
  "stored_notice d c r i = lookup_notice (metadata_of d) c r i"

definition has_route :: "Metadata \<Rightarrow> string \<Rightarrow> string \<Rightarrow> bool" where
  "has_route m c r = (case obj_get m c of None \<Rightarrow> False | Some cd \<Rightarrow> obj_get cd r \<noteq> None)"





text \<open>
  A key resolves to nothing inherited: it has a record, or the reads of the guard yield
  a falsy value for it.
\<close>

definition own_key :: "runtime \<Rightarrow> disk \<Rightarrow> string \<Rightarrow> string \<Rightarrow> string \<Rightarrow> bool" where
  "own_key rt d c r i =
     (case stored_notice d c r i of
        Some n \<Rightarrow> True
      | None \<Rightarrow>
          (case inherited_value rt (metadata_of d) c r i of
             Inl e \<Rightarrow> False
           | Inr v \<Rightarrow> \<not> js_truthy v))"

subsection \<open>Keys of a run\<close>

text \<open>
  The dictionary of a company, as \<open>getActiveNotices\<close> reads it: \<open>metadata[code] || {}\<close>.
\<close>

definition company_data :: "Metadata \<Rightarrow> string \<Rightarrow> Notice obj obj" where
  "company_data m c = (case obj_get m c of None \<Rightarrow> [] | Some cd \<Rightarrow> cd)"

text \<open>
  The keys that the loops of \<open>getActiveNotices\<close> add for one route, and for a company.
\<close>

definition route_active_keys :: "string \<Rightarrow> Notice obj \<Rightarrow> string set" where
  "route_active_keys r routeData =
     set (map (\<lambda>p. noticeKey r (fst p)) (filter (\<lambda>p. isActive (snd p)) routeData))"

definition active_keys :: "Notice obj obj \<Rightarrow> string set" where
  "active_keys companyData =
     \<Union> (set (map (\<lambda>p. route_active_keys (fst p) (snd p)) companyData))"

text \<open>
  The keys of the snapshot that \<open>getActiveNotices\<close> takes from a disk.
\<close>

definition disk_active_keys :: "CompanyMetadata \<Rightarrow> disk \<Rightarrow> string set" where
  "disk_active_keys company d = active_keys (company_data (metadata_of d) (code_string (code company)))"


text \<open>
  The route and id of every notice that the source reports on the routes of a run.
\<close>

definition reported_keys :: "(Route \<Rightarrow> Notice list result) \<Rightarrow> Route list \<Rightarrow> (string \<times> string) list" where
  "reported_keys fetchNotices routes =
     concat (map (\<lambda>rt. case fetchNotices rt of
                          Inl e \<Rightarrow> []
                        | Inr notices \<Rightarrow> map (\<lambda>n. (Route.route rt, id' n)) notices) routes)"







subsection \<open>Paths\<close>






section \<open>Example states\<close>

text \<open>Concrete dates, records, disks and worlds on which the operations are evaluated.\<close>

definition example_earlier :: Date where
  "example_earlier = \<lparr>getTime = 1767225600000, getFullYear = 2026, getMonth = 0\<rparr>"

definition example_now :: Date where
  "example_now = \<lparr>getTime = 1772323200000, getFullYear = 2026, getMonth = 2\<rparr>"

definition example_notice :: Notice where
  "example_notice =
     \<lparr>id' = ''N1'', pdfUrl = KMB_PDF_API ''n1.pdf'', route = ''1A'',
      discoveredAt = example_earlier, isActive = True, lastSeenAt = None\<rparr>"

definition example_empty_disk :: disk where
  "example_empty_disk =
     \<lparr>data_dir = False, metadata_file = Missing, metadata_writes = 0, pdf_files = {},
      pdf_downloads = 0\<rparr>"

text \<open>A disk on which the notice \<open>N1\<close> of the KMB route \<open>1A\<close> is recorded as retired.\<close>

definition example_retired_disk :: disk where
  "example_retired_disk =
     \<lparr>data_dir = True,
      metadata_file =
        Json [(''KMB'', [(''1A'', [(''N1'', example_notice\<lparr>isActive := False\<rparr>)])])],
      metadata_writes = 2,
      pdf_files = {''/app/data/KMB/1A/2026/01/N1.pdf''},
      pdf_downloads = 1\<rparr>"

text \<open>
  A world in which KMB reports the route \<open>1A\<close> with its notice \<open>N1\<close> and every
  download succeeds, and the same world with every download failing.
\<close>

definition example_world :: world where
  "example_world =
     \<lparr>cwd = ''/app'', new_Date = example_now, pdf_ok = (\<lambda>u. True),
      ctb_route_api = Some [],
      ctb_notice_api = (\<lambda>r. Body None),
      kmb_route_api =
        Some (RoutesArray [\<lparr>KMBRoute.route = ''1A'', bound = 1, service_type = 1\<rparr>]),
      kmb_notice_api = (\<lambda>r b. Body (Some
         [\<lparr>kpi_referenceno = ''N1'', kpi_noticeimageurl = ''n1.pdf'',
           krbpiid_routeno = ''1A'', krbpiid_boundno = ''1''\<rparr>])),
      kmb_notice_api_v2 = (\<lambda>r b. Body (Some []))\<rparr>"





text \<open>
  The entries of the runtime's table that the evaluations read, as they are in
  Node.js: a plain object inherits the functions \<open>Object.prototype.toString\<close> under
  \<open>toString\<close> and \<open>Object\<close> under \<open>constructor\<close>; the member \<open>call\<close> of the first is
  the function \<open>Function.prototype.call\<close>, the member \<open>name\<close> of the second is the
  string \<open>'Object'\<close>. Nothing is inherited under \<open>1A\<close>, \<open>N2\<close> or \<open>KMB\<close>. The other
  entries are not read and are left undefined.
\<close>

definition example_runtime :: runtime where
  "example_runtime =
     \<lparr>Object_prototype =
        (\<lambda>k. Inr (if k = ''toString'' then JS_object ''Object.prototype.toString''
                  else if k = ''constructor'' then JS_object ''Object''
                  else JS_undefined)),
      member_of =
        (\<lambda>v k. Inr (if v = JS_object ''Object.prototype.toString'' \<and> k = ''call''
                    then JS_object ''Function.prototype.call''
                    else if v = JS_object ''Object'' \<and> k = ''name'' then JS_string ''Object''
                    else JS_undefined))\<rparr>"



section \<open>Dictionaries: lookup after assignment\<close>

lemma map_of_obj_insert:
  "map_of obj k = None \<Longrightarrow>
   map_of (obj_insert k v obj) k' = (if k' = k then Some v else map_of obj k')"
  by (induction obj) (auto split: option.splits if_splits)

lemma map_of_obj_replace:
  "map_of (obj_replace k v obj) k' =
     (if k' = k \<and> map_of obj k \<noteq> None then Some v else map_of obj k')"
  by (induction obj) (auto split: if_splits)

lemma obj_get_Nil [simp]: "obj_get [] k = None"
  by (simp add: obj_get_def)

lemma obj_get_obj_set:
  "obj_get (obj_set k v obj) k' = (if k' = k then Some v else obj_get obj k')"
  by (auto simp: obj_get_def obj_set_def map_of_obj_insert map_of_obj_replace
           split: option.splits)

lemma obj_replace_same: "map_of obj k = Some v \<Longrightarrow> obj_replace k v obj = obj"
  by (induction obj) (auto split: if_splits)

lemma obj_set_same: "obj_get obj k = Some v \<Longrightarrow> obj_set k v obj = obj"
  by (simp add: obj_get_def obj_set_def obj_replace_same)




lemma lookup_assign:
  "lookup_notice (assign_notice m c r i n) c' r' i' =
     (if c' = c \<and> r' = r \<and> i' = i \<and> has_route m c r then Some n
      else lookup_notice m c' r' i')"
  by (auto simp: lookup_notice_def assign_notice_def has_route_def obj_get_obj_set
           split: option.splits)

lemma lookup_has_route: "lookup_notice m c r i = Some n \<Longrightarrow> has_route m c r"
  by (auto simp: lookup_notice_def has_route_def split: option.splits)

lemma assign_same: "lookup_notice m c r i = Some n \<Longrightarrow> assign_notice m c r i n = m"
  by (auto simp: lookup_notice_def assign_notice_def obj_set_same split: option.splits)



section \<open>The store operations on the stored records\<close>

lemma getMetadata_eq: "getMetadata d = (metadata_of d, ensureDir d)"
  by (simp add: getMetadata_def metadata_of_def ensureDir_def split: file_content.splits)

lemma metadata_of_ensureDir [simp]: "metadata_of (ensureDir d) = metadata_of d"
  by (simp add: metadata_of_def ensureDir_def)

lemma metadata_of_saveMetadata [simp]: "metadata_of (saveMetadata m d) = m"
  by (simp add: metadata_of_def saveMetadata_def)

lemma metadata_of_pdf_files [simp]: "metadata_of (d\<lparr>pdf_files := x\<rparr>) = metadata_of d"
  by (simp add: metadata_of_def)

lemma metadata_of_pdf_downloads [simp]: "metadata_of (d\<lparr>pdf_downloads := x\<rparr>) = metadata_of d"
  by (simp add: metadata_of_def)

lemma stored_ensureDir [simp]: "stored_notice (ensureDir d) = stored_notice d"
  by (simp add: stored_notice_def fun_eq_iff)


lemma stored_updateLastSeen:
  "stored_notice (updateLastSeen r i date company d) c' r' i' =
     (if c' = code_string (code company) \<and> r' = r \<and> i' = i
      then map_option (\<lambda>n. n\<lparr>lastSeenAt := Some date\<rparr>) (stored_notice d c' r' i')
      else stored_notice d c' r' i')"
  by (auto simp: updateLastSeen_def getMetadata_eq stored_notice_def lookup_assign
           dest: lookup_has_route split: option.splits)

lemma isActive_updateLastSeen:
  "map_option isActive (stored_notice (updateLastSeen r i date company d) c' r' i')
     = map_option isActive (stored_notice d c' r' i')"
  by (simp add: stored_updateLastSeen option.map_comp comp_def)



lemma String_split_no_sep: "sep \<notin> set s \<Longrightarrow> String_split sep s = [s]"
  by (induction s) auto

lemma String_split_append:
  "sep \<notin> set a \<Longrightarrow> String_split sep (a @ sep # b) = a # String_split sep b"
  by (induction a) auto

lemma split_key_noticeKey_eq:
  "CHR '':'' \<notin> set r \<Longrightarrow> CHR '':'' \<notin> set i \<Longrightarrow> split_key (noticeKey r i) = (r, i)"
  by (simp add: split_key_def noticeKey_def String_split_append String_split_no_sep
                element_or_undefined_def)



section \<open>The loops of a run\<close>

lemma set_Set_add [simp]: "set (Set_add x s) = insert x (set s)"
  by (auto simp: Set_add_def)

lemma route_active_keys_Nil [simp]: "route_active_keys r [] = {}"
  by (simp add: route_active_keys_def)

lemma route_active_keys_Cons [simp]:
  "route_active_keys r ((i, n) # rd) =
     (if isActive n then insert (noticeKey r i) (route_active_keys r rd) else route_active_keys r rd)"
  by (simp add: route_active_keys_def)

lemma active_keys_Nil [simp]: "active_keys [] = {}"
  by (simp add: active_keys_def)











lemma disk_active_keys_ensureDir [simp]:
  "disk_active_keys company (ensureDir d) = disk_active_keys company d"
  by (simp add: disk_active_keys_def)


lemma obj_set_Nil [simp]: "obj_set k v [] = [(k, v)]"
  by (simp add: obj_set_def)











lemma pdf_files_ensureDir [simp]: "pdf_files (ensureDir d) = pdf_files d"
  by (simp add: ensureDir_def)

lemma pdf_files_updateLastSeen [simp]: "pdf_files (updateLastSeen r i date company d) = pdf_files d"
  by (simp add: updateLastSeen_def getMetadata_eq saveMetadata_def split: option.splits)

lemma pdf_files_markInactive [simp]: "pdf_files (markInactive r i company d) = pdf_files d"
  by (simp add: markInactive_def getMetadata_eq saveMetadata_def split: option.splits)

lemma pdf_downloads_ensureDir [simp]: "pdf_downloads (ensureDir d) = pdf_downloads d"
  by (simp add: ensureDir_def)

lemma pdf_downloads_updateLastSeen [simp]:
  "pdf_downloads (updateLastSeen r i date company d) = pdf_downloads d"
  by (simp add: updateLastSeen_def getMetadata_eq saveMetadata_def split: option.splits)

lemma pdf_downloads_markInactive [simp]:
  "pdf_downloads (markInactive r i company d) = pdf_downloads d"
  by (simp add: markInactive_def getMetadata_eq saveMetadata_def split: option.splits)














lemma reported_keys_Nil [simp]: "reported_keys fetchNotices [] = []"
  by (simp add: reported_keys_def)


















lemma pdf_files_retire_unseen [simp]:
  "pdf_files (retire_unseen company seen active d) = pdf_files d"
  by (induction active arbitrary: d) (auto split: prod.splits)

lemma pdf_downloads_retire_unseen [simp]:
  "pdf_downloads (retire_unseen company seen active d) = pdf_downloads d"
  by (induction active arbitrary: d) (auto split: prod.splits)














lemma ensureDir_idem [simp]: "ensureDir (ensureDir d) = ensureDir d"
  by (simp add: ensureDir_def)

























section \<open>The guard with inherited members\<close>

lemma inherited_value_none:
  assumes "Object_prototype rt c = Inr JS_undefined" and "Object_prototype rt r = Inr JS_undefined"
      and "Object_prototype rt i = Inr JS_undefined"
  shows "inherited_value rt metadata c r i = Inr JS_undefined"
  using assms by (simp add: inherited_value_def split: option.splits)

lemma own_key_stored: "stored_notice d c r i = Some n \<Longrightarrow> own_key rt d c r i"
  by (simp add: own_key_def)

lemma own_key_plain:
  assumes "Object_prototype rt c = Inr JS_undefined" and "Object_prototype rt r = Inr JS_undefined"
      and "Object_prototype rt i = Inr JS_undefined"
  shows "own_key rt d c r i"
  by (cases "stored_notice d c r i") (simp_all add: own_key_def inherited_value_none [OF assms])

lemma own_key_falsy:
  assumes "stored_notice d c r i = None" and "own_key rt d c r i"
  shows "\<exists>v. inherited_value rt (metadata_of d) c r i = Inr v \<and> \<not> js_truthy v"
  using assms by (auto simp: own_key_def split: sum.splits)

lemma under_inherited_guard_falsy:
  "\<not> js_truthy v \<Longrightarrow> under_inherited_guard (Inr v) metadata d = (Inr (), d)"
  by (simp add: under_inherited_guard_def)

lemma markInactive_runtime_own:
  assumes "own_key rt d (code_string (code company)) r i"
  shows "markInactive_runtime rt r i company d = (Inr (), markInactive r i company d)"
proof (cases "stored_notice d (code_string (code company)) r i")
  case None
  from own_key_falsy [OF None assms] obtain v
    where "inherited_value rt (metadata_of d) (code_string (code company)) r i = Inr v"
      and "\<not> js_truthy v" by blast
  with None show ?thesis
    by (simp add: markInactive_runtime_def markInactive_def getMetadata_eq stored_notice_def
                  under_inherited_guard_falsy)
next
  case (Some n)
  then show ?thesis
    by (simp add: markInactive_runtime_def markInactive_def getMetadata_eq stored_notice_def)
qed

lemma updateLastSeen_runtime_own:
  assumes "own_key rt d (code_string (code company)) r i"
  shows "updateLastSeen_runtime rt r i date company d = (Inr (), updateLastSeen r i date company d)"
proof (cases "stored_notice d (code_string (code company)) r i")
  case None
  from own_key_falsy [OF None assms] obtain v
    where "inherited_value rt (metadata_of d) (code_string (code company)) r i = Inr v"
      and "\<not> js_truthy v" by blast
  with None show ?thesis
    by (simp add: updateLastSeen_runtime_def updateLastSeen_def getMetadata_eq stored_notice_def
                  under_inherited_guard_falsy)
next
  case (Some n)
  then show ?thesis
    by (simp add: updateLastSeen_runtime_def updateLastSeen_def getMetadata_eq stored_notice_def)
qed

lemma noticeExistsInMetadata_runtime_own:
  assumes "own_key rt d (code_string (code company)) r i"
  shows "noticeExistsInMetadata_runtime rt company r i d
           = (Inr (fst (noticeExistsInMetadata company r i d)),
              snd (noticeExistsInMetadata company r i d))"
proof (cases "stored_notice d (code_string (code company)) r i")
  case None
  from own_key_falsy [OF None assms] obtain v
    where "inherited_value rt (metadata_of d) (code_string (code company)) r i = Inr v"
      and "\<not> js_truthy v" by blast
  with None show ?thesis
    by (simp add: noticeExistsInMetadata_runtime_def noticeExistsInMetadata_def getMetadata_eq
                  stored_notice_def)
next
  case (Some n)
  then show ?thesis
    by (simp add: noticeExistsInMetadata_runtime_def noticeExistsInMetadata_def getMetadata_eq
                  stored_notice_def)
qed

lemma inherited_object_rewrites:
  assumes "stored_notice d (code_string (code company)) r i = None"
      and "inherited_value rt (metadata_of d) (code_string (code company)) r i = Inr (JS_object b)"
  shows "markInactive_runtime rt r i company d
           = (Inr (), saveMetadata (metadata_of d) (ensureDir d))"
    and "updateLastSeen_runtime rt r i date company d
           = (Inr (), saveMetadata (metadata_of d) (ensureDir d))"
    and "noticeExistsInMetadata_runtime rt company r i d = (Inr True, ensureDir d)"
  using assms
  by (simp_all add: markInactive_runtime_def updateLastSeen_runtime_def
                    noticeExistsInMetadata_runtime_def getMetadata_eq stored_notice_def
                    under_inherited_guard_def)

lemma inherited_string_raises:
  assumes "stored_notice d (code_string (code company)) r i = None"
      and "inherited_value rt (metadata_of d) (code_string (code company)) r i = Inr (JS_string s)"
      and "s \<noteq> []"
  shows "markInactive_runtime rt r i company d = (Inl TypeError, ensureDir d)"
    and "updateLastSeen_runtime rt r i date company d = (Inl TypeError, ensureDir d)"
    and "noticeExistsInMetadata_runtime rt company r i d = (Inr True, ensureDir d)"
  using assms
  by (simp_all add: markInactive_runtime_def updateLastSeen_runtime_def
                    noticeExistsInMetadata_runtime_def getMetadata_eq stored_notice_def
                    under_inherited_guard_def)

lemma inherited_truthy_acts:
  assumes "stored_notice d (code_string (code company)) r i = None"
      and "inherited_value rt (metadata_of d) (code_string (code company)) r i = Inr v"
      and "js_truthy v"
  shows "markInactive_runtime rt r i company d \<noteq> (Inr (), d\<lparr>data_dir := True\<rparr>)"
    and "updateLastSeen_runtime rt r i date company d \<noteq> (Inr (), d\<lparr>data_dir := True\<rparr>)"
proof -
  have "under_inherited_guard (Inr v) (metadata_of d) (ensureDir d) \<noteq> (Inr (), d\<lparr>data_dir := True\<rparr>)"
  proof (cases v)
    case (JS_object b)
    have "metadata_writes (saveMetadata (metadata_of d) (ensureDir d))
            \<noteq> metadata_writes (d\<lparr>data_dir := True\<rparr>)"
      by (simp add: saveMetadata_def ensureDir_def)
    then have "saveMetadata (metadata_of d) (ensureDir d) \<noteq> d\<lparr>data_dir := True\<rparr>" by metis
    with JS_object show ?thesis by (simp add: under_inherited_guard_def)
  qed (use assms(3) in \<open>simp_all add: under_inherited_guard_def\<close>)
  with assms(1,2)
  show "markInactive_runtime rt r i company d \<noteq> (Inr (), d\<lparr>data_dir := True\<rparr>)"
    and "updateLastSeen_runtime rt r i date company d \<noteq> (Inr (), d\<lparr>data_dir := True\<rparr>)"
    by (simp_all add: markInactive_runtime_def updateLastSeen_runtime_def getMetadata_eq
                      stored_notice_def)
qed

section \<open>The claims\<close>

text \<open>
  C1. The claim: \<open>updateLastSeen\<close> (touch) sets \<open>lastSeenAt\<close> to the observation time
  and \<open>isActive\<close> to true, so that a retired notice that the source reports again is
  active after one run. The code of \<open>updateLastSeen\<close> assigns \<open>lastSeenAt\<close> only.
  Evaluated on a disk where \<open>N1\<close> of route \<open>1A\<close> is retired: after \<open>updateLastSeen\<close>,
  and after a whole run of \<open>scrapeKMB\<close> in which KMB reports \<open>N1\<close> again, the record
  has the new \<open>lastSeenAt\<close> and is still inactive.
\<close>

theorem updateLastSeen_leaves_retired:
  "stored_notice example_retired_disk ''KMB'' ''1A'' ''N1''
     = Some (example_notice\<lparr>isActive := False\<rparr>)
   \<and> stored_notice (updateLastSeen ''1A'' ''N1'' example_now KMB_COMPANY example_retired_disk)
        ''KMB'' ''1A'' ''N1''
     = Some (example_notice\<lparr>isActive := False, lastSeenAt := Some example_now\<rparr>)
   \<and> stored_notice (snd (scrapeKMB example_world example_now example_retired_disk))
        ''KMB'' ''1A'' ''N1''
     = Some (example_notice\<lparr>isActive := False, lastSeenAt := Some example_now\<rparr>)"
  by code_simp

















text \<open>
  C8. When the metadata file is missing, or cannot be read or parsed, the reads of
  the store answer as for the empty mapping: \<open>getActiveNotices\<close> returns the empty
  set and \<open>noticeExistsInMetadata\<close> returns false. Neither of them can fail: the
  \<open>catch\<close> of \<open>getMetadata\<close> turns the failure into the empty object.
\<close>

theorem missing_state_reads_empty:
  assumes "metadata_file d = Missing \<or> metadata_file d = Unparseable"
  shows "fst (getActiveNotices company d) = []
       \<and> fst (noticeExistsInMetadata company r i d) = False"
  using assms
  by (auto simp: getActiveNotices_def noticeExistsInMetadata_def getMetadata_eq metadata_of_def
                 lookup_notice_def)

theorem missing_state_reads_empty_witness:
  "metadata_file example_empty_disk = Missing
   \<and> fst (getActiveNotices KMB_COMPANY example_empty_disk) = []
   \<and> fst (noticeExistsInMetadata KMB_COMPANY ''1A'' ''N1'' example_empty_disk) = False"
proof -
  have h: "metadata_file example_empty_disk = Missing"
    by (simp add: example_empty_disk_def)
  show ?thesis
    by (rule conjI [OF h]) (rule missing_state_reads_empty [OF disjI1 [OF h]])
qed

text \<open>
  C9. The claim: \<open>markInactive\<close> and \<open>updateLastSeen\<close> for a key without a record do
  nothing and raise no error. The guard of both reads inherited members as well. On
  the disk with the record of \<open>N1\<close> of the KMB route \<open>1A\<close>, no record is stored under
  route \<open>toString\<close> and id \<open>call\<close>, nor under route \<open>constructor\<close> and id \<open>name\<close>.
  \<open>markInactive\<close> for the first key finds the function \<open>Function.prototype.call\<close>,
  assigns to it and writes the metadata file again; \<open>updateLastSeen\<close> for the second
  key finds the string \<open>'Object'\<close> and raises a TypeError.
\<close>

theorem inherited_key_counterexample:
  "stored_notice example_retired_disk ''KMB'' ''toString'' ''call'' = None
   \<and> metadata_writes example_retired_disk = 2
   \<and> markInactive_runtime example_runtime ''toString'' ''call'' KMB_COMPANY example_retired_disk
     = (Inr (), example_retired_disk\<lparr>metadata_writes := 3\<rparr>)
   \<and> stored_notice example_retired_disk ''KMB'' ''constructor'' ''name'' = None
   \<and> updateLastSeen_runtime example_runtime ''constructor'' ''name'' example_now KMB_COMPANY
        example_retired_disk
     = (Inl TypeError, example_retired_disk)"
  by code_simp

text \<open>
  C9, as the code has it: for a key that has no record, and for which the reads of the
  guard find no truthy inherited member either (they yield \<open>undefined\<close> or another
  falsy value), \<open>markInactive\<close> and \<open>updateLastSeen\<close> return normally and do nothing:
  the metadata file keeps its content and is not written. (The only change is that
  \<open>getMetadata\<close> has made sure the data directory exists.)
\<close>

theorem missing_key_noop:
  assumes "stored_notice d (code_string (code company)) r i = None"
      and "inherited_value rt (metadata_of d) (code_string (code company)) r i = Inr v"
      and "\<not> js_truthy v"
  shows "markInactive_runtime rt r i company d = (Inr (), d\<lparr>data_dir := True\<rparr>)
       \<and> updateLastSeen_runtime rt r i date company d = (Inr (), d\<lparr>data_dir := True\<rparr>)
       \<and> metadata_file (snd (markInactive_runtime rt r i company d)) = metadata_file d
       \<and> metadata_writes (snd (markInactive_runtime rt r i company d)) = metadata_writes d
       \<and> metadata_file (snd (updateLastSeen_runtime rt r i date company d)) = metadata_file d
       \<and> metadata_writes (snd (updateLastSeen_runtime rt r i date company d)) = metadata_writes d"
proof -
  have k: "own_key rt d (code_string (code company)) r i"
    using assms by (simp add: own_key_def)
  have m: "markInactive_runtime rt r i company d = (Inr (), markInactive r i company d)"
    using k by (rule markInactive_runtime_own)
  have u: "updateLastSeen_runtime rt r i date company d = (Inr (), updateLastSeen r i date company d)"
    using k by (rule updateLastSeen_runtime_own)
  have m': "markInactive r i company d = d\<lparr>data_dir := True\<rparr>"
    using assms(1)
    by (simp add: markInactive_def getMetadata_eq stored_notice_def ensureDir_def)
  have u': "updateLastSeen r i date company d = d\<lparr>data_dir := True\<rparr>"
    using assms(1)
    by (simp add: updateLastSeen_def getMetadata_eq stored_notice_def ensureDir_def)
  show ?thesis by (simp add: m u m' u')
qed

theorem missing_key_noop_witness:
  "(stored_notice example_retired_disk (code_string (code KMB_COMPANY)) ''1A'' ''N2'' = None
     \<and> inherited_value example_runtime (metadata_of example_retired_disk)
          (code_string (code KMB_COMPANY)) ''1A'' ''N2'' = Inr JS_undefined
     \<and> \<not> js_truthy JS_undefined)
   \<and> (markInactive_runtime example_runtime ''1A'' ''N2'' KMB_COMPANY example_retired_disk
         = (Inr (), example_retired_disk\<lparr>data_dir := True\<rparr>)
       \<and> updateLastSeen_runtime example_runtime ''1A'' ''N2'' example_now KMB_COMPANY
            example_retired_disk
         = (Inr (), example_retired_disk\<lparr>data_dir := True\<rparr>)
       \<and> metadata_file (snd (markInactive_runtime example_runtime ''1A'' ''N2'' KMB_COMPANY
                               example_retired_disk))
         = metadata_file example_retired_disk
       \<and> metadata_writes (snd (markInactive_runtime example_runtime ''1A'' ''N2'' KMB_COMPANY
                                 example_retired_disk))
         = metadata_writes example_retired_disk
       \<and> metadata_file (snd (updateLastSeen_runtime example_runtime ''1A'' ''N2'' example_now
                               KMB_COMPANY example_retired_disk))
         = metadata_file example_retired_disk
       \<and> metadata_writes (snd (updateLastSeen_runtime example_runtime ''1A'' ''N2'' example_now
                                 KMB_COMPANY example_retired_disk))
         = metadata_writes example_retired_disk)"
proof -
  have h1: "stored_notice example_retired_disk (code_string (code KMB_COMPANY)) ''1A'' ''N2''
              = None"
    by code_simp
  have h2: "inherited_value example_runtime (metadata_of example_retired_disk)
              (code_string (code KMB_COMPANY)) ''1A'' ''N2'' = Inr JS_undefined"
    by code_simp
  have h3: "\<not> js_truthy JS_undefined" by simp
  show ?thesis
    by (rule conjI [OF conjI [OF h1 conjI [OF h2 h3]] missing_key_noop [OF h1 h2 h3]])
qed

text \<open>
  C10. For a route and a notice id without a colon, splitting the key
  \<open>route:noticeId\<close> at the colons and taking the first two parts gives the route
  and the notice id back, so the last loop of a scraper calls \<open>markInactive\<close> for
  the very record whose key the snapshot holds.
\<close>

theorem split_key_noticeKey:
  assumes "CHR '':'' \<notin> set r" and "CHR '':'' \<notin> set i"
  shows "split_key (noticeKey r i) = (r, i)
       \<and> retire_unseen company seenNotices [noticeKey r i] d
           = (if Set_has seenNotices (noticeKey r i) then d else markInactive r i company d)"
  using assms by (simp add: split_key_noticeKey_eq)

theorem split_key_noticeKey_witness:
  "CHR '':'' \<notin> set ''1A'' \<and> CHR '':'' \<notin> set ''N1''
   \<and> split_key (noticeKey ''1A'' ''N1'') = (''1A'', ''N1'')
   \<and> retire_unseen KMB_COMPANY [] [noticeKey ''1A'' ''N1''] example_retired_disk
        = (if Set_has [] (noticeKey ''1A'' ''N1'') then example_retired_disk
           else markInactive ''1A'' ''N1'' KMB_COMPANY example_retired_disk)"
proof -
  have h1: "CHR '':'' \<notin> set ''1A''" by simp
  have h2: "CHR '':'' \<notin> set ''N1''" by simp
  show ?thesis
    by (rule conjI [OF h1 conjI [OF h2 split_key_noticeKey [OF h1 h2]]])
qed

end
